theory Spec2Isabelle
  imports Complex_Main
begin

section \<open>Numbers\<close>

text \<open>
  The engine computes on JavaScript numbers. They are modelled as exact reals: rounding,
  overflow, \<open>NaN\<close> and the infinities are outside the model. A quotient whose divisor is
  zero (\<open>Infinity\<close> or \<open>NaN\<close> in JavaScript) has the value \<open>0\<close> here, so every theorem whose
  conclusion depends on such a quotient assumes the divisor to be non-zero.

  \<open>Math.pow x y\<close> is \<open>1\<close> for \<open>y = 0\<close>, the real power for a positive base, \<open>0\<close> for
  base \<open>0\<close> and a positive exponent, and the signed power for a negative base and a whole
  exponent. Where JavaScript yields \<open>Infinity\<close> (base \<open>0\<close>, negative exponent) or \<open>NaN\<close>
  (negative base, fractional exponent) the model has \<open>0\<close>; no theorem below depends on
  such a call: the only one that depends on the value of a power has a base above one.
\<close>

definition Math_pow :: "real \<Rightarrow> real \<Rightarrow> real" where
  "Math_pow x y =
    (if y = 0 then 1
     else if x > 0 then x powr y
     else if x = 0 then 0
     else if y = real_of_int \<lfloor>y\<rfloor>
       then (if even \<lfloor>y\<rfloor> then (- x) powr y else - ((- x) powr y))
     else 0)"

section \<open>Data model\<close>

text \<open>
  \<open>RentalIncomeConfig\<close>: the object destructured by \<open>calculateNetRent\<close>. A field that the
  destructuring pattern gives a default is an option (\<open>None\<close> for \<open>undefined\<close>);
  \<open>rentalDurationMonths\<close> is read with \<open>?? Infinity\<close>, so \<open>None\<close> stands for no limit.
\<close>

record RentalIncomeConfig =
  grossRent :: real
  taxRate :: "real option"
  vacancyRate :: "real option"
  operatingCosts :: "real option"
  indexed :: "bool option"
  indexCosts :: "bool option"
  applyToLoan :: bool
  rentalDurationMonths :: "real option"

text \<open>
  \<open>LoanConfiguration\<close>: the values bound by the destructuring pattern at the head of
  \<open>calculateSchedule\<close>, that is, after its defaults have been filled in. \<open>startDate\<close> only
  feeds the \<open>date\<close> field of the entries; dates are not modelled.
\<close>

record LoanConfiguration =
  loanAmount :: real
  annualInterestRate :: real
  annualInflationRate :: real
  loanTermYears :: real
  monthlyFee :: real
  loanType :: string
  extraPayment :: real
  indexExtraPayment :: bool
  fixedPayment :: real
  rentalIncome :: "RentalIncomeConfig option"
  acceleratedPayoff :: bool

record ScheduleEntry =
  month :: nat
  balanceStart :: real
  inflation :: real
  interest :: real
  principal :: real
  fee :: real
  requiredPayment :: real
  manualExtra :: real
  rentBasedExtra :: real
  rentalContribution :: real
  totalPaymentToLoan :: real
  userOutOfPocket :: real
  balance :: real

record ScheduleSummary =
  originalLoan :: real
  summaryLoanType :: string
  termMonths :: nat
  termYears :: real
  totalPaidByUser :: real
  totalPaidToLoan :: real
  totalInterest :: real
  totalInflation :: real
  totalFees :: real
  totalRentalContribution :: real
  firstPayment :: real
  firstUserPayment :: real
  lastPayment :: real
  averageMonthlyPayment :: real

record ScheduleResult =
  schedule :: "ScheduleEntry list"
  summary :: ScheduleSummary

section \<open>The rental income model\<close>

definition calculateNetRent :: "RentalIncomeConfig \<Rightarrow> real \<Rightarrow> real" where
  "calculateNetRent rental inflationFactor =
    (let taxRate' = (case taxRate rental of None \<Rightarrow> 11 / 100 | Some t \<Rightarrow> t);
         vacancyRate' = (case vacancyRate rental of None \<Rightarrow> 5 / 100 | Some v \<Rightarrow> v);
         operatingCosts' = (case operatingCosts rental of None \<Rightarrow> 0 | Some k \<Rightarrow> k);
         indexed' = (case indexed rental of None \<Rightarrow> True | Some b \<Rightarrow> b);
         indexCosts' = (case indexCosts rental of None \<Rightarrow> True | Some b \<Rightarrow> b);
         adjustedGrossRent =
           (if indexed' then grossRent rental * inflationFactor else grossRent rental);
         adjustedCosts =
           (if indexCosts' then operatingCosts' * inflationFactor else operatingCosts');
         taxAmount = adjustedGrossRent * taxRate';
         vacancyLoss = adjustedGrossRent * vacancyRate'
     in max 0 (adjustedGrossRent - taxAmount - vacancyLoss - adjustedCosts))"

section \<open>The schedule engine\<close>

definition calculateAnnuityPayment :: "real \<Rightarrow> real \<Rightarrow> real \<Rightarrow> real" where
  "calculateAnnuityPayment P monthlyRate months =
    (if P \<le> 0 then 0
     else if monthlyRate = 0 then P / months
     else let factor = Math_pow (1 + monthlyRate) months
          in P * (monthlyRate * factor) / (factor - 1))"

definition isIndexed :: "LoanConfiguration \<Rightarrow> bool" where
  "isIndexed c = (loanType c = ''indexedAnnuity'')"

definition isEqualPrincipal :: "LoanConfiguration \<Rightarrow> bool" where
  "isEqualPrincipal c = (loanType c = ''nonIndexedEqualPrincipal'')"

definition monthlyInterestRate :: "LoanConfiguration \<Rightarrow> real" where
  "monthlyInterestRate c = annualInterestRate c / 12"

definition monthlyInflationRate :: "LoanConfiguration \<Rightarrow> real" where
  "monthlyInflationRate c =
    (if isIndexed c then Math_pow (1 + annualInflationRate c) (1 / 12) - 1 else 0)"

definition totalMonths :: "LoanConfiguration \<Rightarrow> real" where
  "totalMonths c = loanTermYears c * 12"

definition basePayment :: "LoanConfiguration \<Rightarrow> real" where
  "basePayment c =
    (if isEqualPrincipal c then loanAmount c / totalMonths c
     else if monthlyInterestRate c = 0 then loanAmount c / totalMonths c
     else loanAmount c *
            (monthlyInterestRate c * Math_pow (1 + monthlyInterestRate c) (totalMonths c)) /
            (Math_pow (1 + monthlyInterestRate c) (totalMonths c) - 1))"

text \<open>
  \<open>rentalActive = rentalIncome && month <= rentalDurationMonths\<close>, with
  \<open>rentalDurationMonths = rentalIncome?.rentalDurationMonths ?? Infinity\<close>.
\<close>

definition rentalActive :: "LoanConfiguration \<Rightarrow> nat \<Rightarrow> bool" where
  "rentalActive c m =
    (case rentalIncome c of
       None \<Rightarrow> False
     | Some r \<Rightarrow> (case rentalDurationMonths r of None \<Rightarrow> True | Some d \<Rightarrow> real m \<le> d))"

text \<open>The variables that the loop of \<open>calculateSchedule\<close> updates.\<close>

record LoopState =
  st_balance :: real
  st_schedule :: "ScheduleEntry list"
  st_totalInterest :: real
  st_totalInflation :: real
  st_totalPaidByUser :: real
  st_totalPaidToLoan :: real
  st_totalFees :: real
  st_totalRentalContribution :: real
  st_month :: nat
  st_cumulativeInflationFactor :: real

definition initialState :: "LoanConfiguration \<Rightarrow> LoopState" where
  "initialState c =
    \<lparr> st_balance = loanAmount c, st_schedule = [], st_totalInterest = 0,
      st_totalInflation = 0, st_totalPaidByUser = 0, st_totalPaidToLoan = 0,
      st_totalFees = 0, st_totalRentalContribution = 0, st_month = 0,
      st_cumulativeInflationFactor = 1 \<rparr>"

text \<open>
  The loop body, one definition per local variable, each a function of the configuration
  and of the state at the top of the loop. A local variable that shares its name with a
  field of the emitted entry carries a prime.
\<close>

definition remainingMonths :: "LoanConfiguration \<Rightarrow> LoopState \<Rightarrow> real" where
  "remainingMonths c s = max 1 (totalMonths c - real (Suc (st_month s)) + 1)"

definition inflationAmount :: "LoanConfiguration \<Rightarrow> LoopState \<Rightarrow> real" where
  "inflationAmount c s = st_balance s * monthlyInflationRate c"

definition balanceAfterInflation :: "LoanConfiguration \<Rightarrow> LoopState \<Rightarrow> real" where
  "balanceAfterInflation c s = st_balance s + inflationAmount c s"

definition interest' :: "LoanConfiguration \<Rightarrow> LoopState \<Rightarrow> real" where
  "interest' c s = balanceAfterInflation c s * monthlyInterestRate c"

definition requiredPayment' :: "LoanConfiguration \<Rightarrow> LoopState \<Rightarrow> real" where
  "requiredPayment' c s =
    (if isEqualPrincipal c then
       (if acceleratedPayoff c then (loanAmount c / totalMonths c) + interest' c s
        else balanceAfterInflation c s / remainingMonths c s + interest' c s)
     else if isIndexed c then
       (if acceleratedPayoff c then basePayment c * st_cumulativeInflationFactor s
        else calculateAnnuityPayment
               (balanceAfterInflation c s / st_cumulativeInflationFactor s)
               (monthlyInterestRate c) (remainingMonths c s)
             * st_cumulativeInflationFactor s)
     else
       (if acceleratedPayoff c then basePayment c
        else calculateAnnuityPayment (balanceAfterInflation c s)
               (monthlyInterestRate c) (remainingMonths c s)))"

text \<open>The fixed payment override: \<open>fixedPayment > 0 && fixedPayment > requiredPayment\<close>.\<close>

definition fixedOverride :: "LoanConfiguration \<Rightarrow> LoopState \<Rightarrow> bool" where
  "fixedOverride c s = (fixedPayment c > 0 \<and> fixedPayment c > requiredPayment' c s)"

definition manualExtra' :: "LoanConfiguration \<Rightarrow> LoopState \<Rightarrow> real" where
  "manualExtra' c s =
    (if fixedOverride c s then 0
     else if extraPayment c > 0 then
       (if indexExtraPayment c then extraPayment c * st_cumulativeInflationFactor s
        else extraPayment c)
     else 0)"

definition paymentBeforeRental :: "LoanConfiguration \<Rightarrow> LoopState \<Rightarrow> real" where
  "paymentBeforeRental c s =
    (if fixedOverride c s then fixedPayment c else requiredPayment' c s)"

text \<open>
  The rental block: \<open>(rentalContribution, rentBasedExtra, userOutOfPocket)\<close> as they
  stand after it.
\<close>

definition applyRental :: "LoanConfiguration \<Rightarrow> LoopState \<Rightarrow> real \<times> real \<times> real" where
  "applyRental c s =
    (case rentalIncome c of
       None \<Rightarrow> (0, 0, paymentBeforeRental c s + manualExtra' c s)
     | Some r \<Rightarrow>
         if rentalActive c (Suc (st_month s)) \<and> applyToLoan r then
           (let netRent = calculateNetRent r (st_cumulativeInflationFactor s)
            in if netRent \<ge> paymentBeforeRental c s
               then (paymentBeforeRental c s, netRent - paymentBeforeRental c s,
                     manualExtra' c s)
               else (netRent, 0, (paymentBeforeRental c s - netRent) + manualExtra' c s))
         else (0, 0, paymentBeforeRental c s + manualExtra' c s))"

definition rentalContribution' :: "LoanConfiguration \<Rightarrow> LoopState \<Rightarrow> real" where
  "rentalContribution' c s = fst (applyRental c s)"

definition rentBasedExtra' :: "LoanConfiguration \<Rightarrow> LoopState \<Rightarrow> real" where
  "rentBasedExtra' c s = fst (snd (applyRental c s))"

definition userOutOfPocket' :: "LoanConfiguration \<Rightarrow> LoopState \<Rightarrow> real" where
  "userOutOfPocket' c s = snd (snd (applyRental c s))"

definition totalPaymentToLoan' :: "LoanConfiguration \<Rightarrow> LoopState \<Rightarrow> real" where
  "totalPaymentToLoan' c s =
    paymentBeforeRental c s + manualExtra' c s + rentBasedExtra' c s"

definition principalPaid :: "LoanConfiguration \<Rightarrow> LoopState \<Rightarrow> real" where
  "principalPaid c s = min (totalPaymentToLoan' c s - interest' c s) (balanceAfterInflation c s)"

definition actualPrincipal :: "LoanConfiguration \<Rightarrow> LoopState \<Rightarrow> real" where
  "actualPrincipal c s = max 0 (principalPaid c s)"

definition balance' :: "LoanConfiguration \<Rightarrow> LoopState \<Rightarrow> real" where
  "balance' c s =
    (let b = balanceAfterInflation c s - actualPrincipal c s
     in if b < 1 / 100 then 0 else b)"

definition entry :: "LoanConfiguration \<Rightarrow> LoopState \<Rightarrow> ScheduleEntry" where
  "entry c s =
    \<lparr> month = Suc (st_month s),
      balanceStart = balance' c s + actualPrincipal c s,
      inflation = inflationAmount c s,
      interest = interest' c s,
      principal = actualPrincipal c s,
      fee = monthlyFee c,
      requiredPayment = requiredPayment' c s,
      manualExtra = manualExtra' c s,
      rentBasedExtra = rentBasedExtra' c s,
      rentalContribution = rentalContribution' c s,
      totalPaymentToLoan = totalPaymentToLoan' c s + monthlyFee c,
      userOutOfPocket = userOutOfPocket' c s + monthlyFee c,
      balance = balance' c s \<rparr>"

text \<open>
  One pass through the loop body. \<open>totalRentalContribution\<close> is increased inside the rental
  block only; outside it both addends are zero, so the sum below is the same.
\<close>

definition step :: "LoanConfiguration \<Rightarrow> LoopState \<Rightarrow> LoopState" where
  "step c s =
    \<lparr> st_balance = balance' c s,
      st_schedule = st_schedule s @ [entry c s],
      st_totalInterest = st_totalInterest s + interest' c s,
      st_totalInflation = st_totalInflation s + inflationAmount c s,
      st_totalPaidByUser = st_totalPaidByUser s + (userOutOfPocket' c s + monthlyFee c),
      st_totalPaidToLoan = st_totalPaidToLoan s + (totalPaymentToLoan' c s + monthlyFee c),
      st_totalFees = st_totalFees s + monthlyFee c,
      st_totalRentalContribution =
        st_totalRentalContribution s + (rentalContribution' c s + rentBasedExtra' c s),
      st_month = Suc (st_month s),
      st_cumulativeInflationFactor =
        st_cumulativeInflationFactor s * (1 + monthlyInflationRate c) \<rparr>"

definition loopCondition :: "LoanConfiguration \<Rightarrow> LoopState \<Rightarrow> bool" where
  "loopCondition c s =
    ((if acceleratedPayoff c then st_balance s > 1 / 100
      else real (st_month s) < totalMonths c) \<and> st_month s < 600)"

function loop :: "LoanConfiguration \<Rightarrow> LoopState \<Rightarrow> LoopState" where
  "loop c s = (if loopCondition c s then loop c (step c s) else s)"
  by pat_completeness auto
termination
  by (relation "measure (\<lambda>(c, s). 600 - st_month s)")
     (auto simp: loopCondition_def step_def)

declare loop.simps [simp del]

text \<open>\<open>xs[0]?.f || 0\<close> and \<open>xs[xs.length - 1]?.f || 0\<close> on a list of entries.\<close>

definition firstOr0 :: "(ScheduleEntry \<Rightarrow> real) \<Rightarrow> ScheduleEntry list \<Rightarrow> real" where
  "firstOr0 f xs = (case xs of [] \<Rightarrow> 0 | e # _ \<Rightarrow> f e)"

definition lastOr0 :: "(ScheduleEntry \<Rightarrow> real) \<Rightarrow> ScheduleEntry list \<Rightarrow> real" where
  "lastOr0 f xs = (if xs = [] then 0 else f (last xs))"

definition calculateSchedule :: "LoanConfiguration \<Rightarrow> ScheduleResult option" where
  "calculateSchedule c =
    (if loanAmount c \<le> 0 then None
     else
       let s = loop c (initialState c)
       in Some
           \<lparr> schedule = st_schedule s,
             summary =
               \<lparr> originalLoan = loanAmount c,
                 summaryLoanType = loanType c,
                 termMonths = st_month s,
                 termYears = real (st_month s) / 12,
                 totalPaidByUser = st_totalPaidByUser s,
                 totalPaidToLoan = st_totalPaidToLoan s,
                 totalInterest = st_totalInterest s,
                 totalInflation = st_totalInflation s,
                 totalFees = st_totalFees s,
                 totalRentalContribution = st_totalRentalContribution s,
                 firstPayment = firstOr0 totalPaymentToLoan (st_schedule s),
                 firstUserPayment = firstOr0 userOutOfPocket (st_schedule s),
                 lastPayment = lastOr0 totalPaymentToLoan (st_schedule s),
                 averageMonthlyPayment = st_totalPaidToLoan s / real (st_month s) \<rparr> \<rparr>)"

section \<open>Example configurations\<close>

text \<open>
  A loan of 1200 over three months (a quarter of a year) at zero interest with a monthly
  fee of 10, as a recalculated non-indexed annuity.
\<close>

definition exampleLoan :: LoanConfiguration where
  "exampleLoan =
    \<lparr> loanAmount = 1200, annualInterestRate = 0, annualInflationRate = 0,
      loanTermYears = 1 / 4, monthlyFee = 10, loanType = ''nonIndexedAnnuity'',
      extraPayment = 0, indexExtraPayment = False, fixedPayment = 0,
      rentalIncome = None, acceleratedPayoff = False \<rparr>"


text \<open>A rental of 1000 a month without deductions that is not applied to the loan.\<close>

definition idleRental :: RentalIncomeConfig where
  "idleRental =
    \<lparr> grossRent = 1000, taxRate = Some 0, vacancyRate = Some 0, operatingCosts = Some 0,
      indexed = Some False, indexCosts = Some False, applyToLoan = False,
      rentalDurationMonths = None \<rparr>"

section \<open>Invariants of the loop\<close>


definition coveringRental :: RentalIncomeConfig where
  "coveringRental = idleRental \<lparr> applyToLoan := True \<rparr>"

definition rentedLoan :: LoanConfiguration where
  "rentedLoan = exampleLoan \<lparr> rentalIncome := Some coveringRental \<rparr>"

definition briefRental :: RentalIncomeConfig where
  "briefRental = coveringRental \<lparr> rentalDurationMonths := Some 1 \<rparr>"

definition brieflyRentedLoan :: LoanConfiguration where
  "brieflyRentedLoan = exampleLoan \<lparr> monthlyFee := 0, rentalIncome := Some briefRental \<rparr>"

definition balanceBefore :: "LoanConfiguration \<Rightarrow> ScheduleEntry list \<Rightarrow> nat \<Rightarrow> real" where
  "balanceBefore c xs i = (if i = 0 then loanAmount c else balance (xs ! (i - 1)))"

definition balanceAfterInflationAt ::
  "LoanConfiguration \<Rightarrow> ScheduleEntry list \<Rightarrow> nat \<Rightarrow> real" where
  "balanceAfterInflationAt c xs i =
    balanceBefore c xs i + balanceBefore c xs i * monthlyInflationRate c"

definition principalRule :: "LoanConfiguration \<Rightarrow> ScheduleEntry list \<Rightarrow> nat \<Rightarrow> bool" where
  "principalRule c xs i =
    (principal (xs ! i) =
       max 0 (min (totalPaymentToLoan (xs ! i) - monthlyFee c - interest (xs ! i))
                  (balanceAfterInflationAt c xs i)))"

definition principalInv :: "LoanConfiguration \<Rightarrow> LoopState \<Rightarrow> bool" where
  "principalInv c s =
    (st_balance s = balanceBefore c (st_schedule s) (length (st_schedule s)) \<and>
     (\<forall>i < length (st_schedule s). principalRule c (st_schedule s) i))"

definition paymentDue :: "LoanConfiguration \<Rightarrow> ScheduleEntry \<Rightarrow> real" where
  "paymentDue c e =
    (if fixedPayment c > 0 \<and> fixedPayment c > requiredPayment e then fixedPayment c
     else requiredPayment e)"

definition netRentAt :: "LoanConfiguration \<Rightarrow> RentalIncomeConfig \<Rightarrow> ScheduleEntry \<Rightarrow> real" where
  "netRentAt c r e = calculateNetRent r ((1 + monthlyInflationRate c) ^ (month e - 1))"

definition rentRule :: "LoanConfiguration \<Rightarrow> RentalIncomeConfig \<Rightarrow> ScheduleEntry \<Rightarrow> bool" where
  "rentRule c r e =
    (rentalActive c (month e) \<and> netRentAt c r e \<ge> paymentDue c e \<longrightarrow>
       rentalContribution e = paymentDue c e \<and>
       rentBasedExtra e = netRentAt c r e - paymentDue c e \<and>
       userOutOfPocket e = manualExtra e + monthlyFee c)"

definition rentInv :: "LoanConfiguration \<Rightarrow> RentalIncomeConfig \<Rightarrow> LoopState \<Rightarrow> bool" where
  "rentInv c r s =
    (st_cumulativeInflationFactor s = (1 + monthlyInflationRate c) ^ st_month s \<and>
     list_all (rentRule c r) (st_schedule s))"

definition scheduleOf :: "LoanConfiguration \<Rightarrow> ScheduleEntry list" where
  "scheduleOf c = (case calculateSchedule c of None \<Rightarrow> [] | Some r \<Rightarrow> schedule r)"

section \<open>The investment analyzer\<close>















section \<open>Basic facts about the loop\<close>

lemmas body_defs = remainingMonths_def inflationAmount_def balanceAfterInflation_def
  interest'_def requiredPayment'_def fixedOverride_def manualExtra'_def paymentBeforeRental_def
  applyRental_def rentalContribution'_def rentBasedExtra'_def userOutOfPocket'_def
  totalPaymentToLoan'_def principalPaid_def actualPrincipal_def balance'_def entry_def step_def
  loopCondition_def isIndexed_def isEqualPrincipal_def monthlyInterestRate_def
  monthlyInflationRate_def totalMonths_def basePayment_def rentalActive_def
  calculateAnnuityPayment_def calculateNetRent_def initialState_def


lemma st_schedule_step: "st_schedule (step c s) = st_schedule s @ [entry c s]"
  by (simp add: step_def)

lemma st_balance_step: "st_balance (step c s) = balance' c s"
  by (simp add: step_def)


lemma balance_entry: "balance (entry c s) = balance' c s"
  by (simp add: entry_def)

lemma loop_invariant:
  "I s \<Longrightarrow> (\<And>t. I t \<Longrightarrow> loopCondition c t \<Longrightarrow> I (step c t)) \<Longrightarrow> I (loop c s)"
proof (induction c s rule: loop.induct)
  case (1 c s)
  show ?case
  proof (cases "loopCondition c s")
    case True
    have "I (step c s)" using "1.prems"(2) [OF "1.prems"(1) True] .
    then have "I (loop c (step c s))" using "1.IH" [OF True] "1.prems"(2) by blast
    then show ?thesis using True by (subst loop.simps) simp
  next
    case False
    then show ?thesis using "1.prems"(1) by (subst loop.simps) simp
  qed
qed


lemma loop_no_iteration: "\<not> loopCondition c s \<Longrightarrow> loop c s = s"
  by (subst loop.simps) simp

lemma rental_update_basic:
  "isEqualPrincipal (c\<lparr>rentalIncome := x\<rparr>) = isEqualPrincipal c"
  "isIndexed (c\<lparr>rentalIncome := x\<rparr>) = isIndexed c"
  "monthlyInterestRate (c\<lparr>rentalIncome := x\<rparr>) = monthlyInterestRate c"
  "monthlyInflationRate (c\<lparr>rentalIncome := x\<rparr>) = monthlyInflationRate c"
  "totalMonths (c\<lparr>rentalIncome := x\<rparr>) = totalMonths c"
  "basePayment (c\<lparr>rentalIncome := x\<rparr>) = basePayment c"
  "initialState (c\<lparr>rentalIncome := x\<rparr>) = initialState c"
  "loopCondition (c\<lparr>rentalIncome := x\<rparr>) s = loopCondition c s"
  by (simp_all add: isEqualPrincipal_def isIndexed_def monthlyInterestRate_def
      monthlyInflationRate_def totalMonths_def basePayment_def initialState_def
      loopCondition_def)

lemma rental_update_remainingMonths:
  "remainingMonths (c\<lparr>rentalIncome := x\<rparr>) s = remainingMonths c s"
  by (simp add: remainingMonths_def rental_update_basic)

lemma rental_update_inflationAmount:
  "inflationAmount (c\<lparr>rentalIncome := x\<rparr>) s = inflationAmount c s"
  by (simp add: inflationAmount_def rental_update_basic)

lemma rental_update_balanceAfterInflation:
  "balanceAfterInflation (c\<lparr>rentalIncome := x\<rparr>) s = balanceAfterInflation c s"
  by (simp add: balanceAfterInflation_def rental_update_inflationAmount)

lemma rental_update_interest:
  "interest' (c\<lparr>rentalIncome := x\<rparr>) s = interest' c s"
  by (simp add: interest'_def rental_update_balanceAfterInflation rental_update_basic)

lemma rental_update_requiredPayment:
  "requiredPayment' (c\<lparr>rentalIncome := x\<rparr>) s = requiredPayment' c s"
  unfolding requiredPayment'_def rental_update_basic rental_update_remainingMonths
    rental_update_balanceAfterInflation rental_update_interest
  by simp

lemma rental_update_fixedOverride:
  "fixedOverride (c\<lparr>rentalIncome := x\<rparr>) s = fixedOverride c s"
  by (simp add: fixedOverride_def rental_update_requiredPayment)

lemma rental_update_manualExtra:
  "manualExtra' (c\<lparr>rentalIncome := x\<rparr>) s = manualExtra' c s"
  by (simp add: manualExtra'_def rental_update_fixedOverride)

lemma rental_update_paymentBeforeRental:
  "paymentBeforeRental (c\<lparr>rentalIncome := x\<rparr>) s = paymentBeforeRental c s"
  by (simp add: paymentBeforeRental_def rental_update_fixedOverride rental_update_requiredPayment)

lemmas rental_update_payment = rental_update_remainingMonths rental_update_inflationAmount
  rental_update_balanceAfterInflation rental_update_interest rental_update_requiredPayment
  rental_update_fixedOverride rental_update_manualExtra rental_update_paymentBeforeRental

lemma applyRental_idle:
  assumes "\<not> applyToLoan r"
  shows "applyRental (c\<lparr>rentalIncome := Some r\<rparr>) s = applyRental (c\<lparr>rentalIncome := None\<rparr>) s"
  using assms by (simp add: applyRental_def rental_update_payment)

lemma step_idle:
  assumes "\<not> applyToLoan r"
  shows "step (c\<lparr>rentalIncome := Some r\<rparr>) s = step (c\<lparr>rentalIncome := None\<rparr>) s"
  by (simp add: step_def entry_def balance'_def actualPrincipal_def principalPaid_def
      totalPaymentToLoan'_def userOutOfPocket'_def rentBasedExtra'_def rentalContribution'_def
      applyRental_idle [OF assms] rental_update_payment rental_update_basic)

lemma loop_cong:
  "(\<And>t. step c t = step c' t) \<Longrightarrow> (\<And>t. loopCondition c t = loopCondition c' t) \<Longrightarrow>
     loop c s = loop c' s"
proof (induction c s rule: loop.induct)
  case (1 c s)
  show ?case
  proof (cases "loopCondition c s")
    case True
    have "loop c s = loop c (step c s)" using True by (subst loop.simps) simp
    also have "\<dots> = loop c' (step c s)" using "1.IH" [OF True "1.prems"] .
    also have "\<dots> = loop c' (step c' s)" by (simp add: "1.prems"(1))
    also have "\<dots> = loop c' s" using True "1.prems"(2) by (subst (2) loop.simps) simp
    finally show ?thesis .
  next
    case False
    then show ?thesis using "1.prems"(2) by (simp add: loop_no_iteration)
  qed
qed

section \<open>Claims\<close>



text \<open>
  C6. \<open>calculateNetRent\<close> multiplies the gross rent by the inflation factor exactly when
  \<open>indexed\<close> is set and the operating costs exactly when \<open>indexCosts\<close> is set (both default
  to set), subtracts the tax and the vacancy loss on the (possibly indexed) gross rent and
  the (possibly indexed) operating costs, and floors the result at 0: the net rent is
  never negative.
\<close>

theorem calculateNetRent_formula:
  "calculateNetRent rental f =
     max 0 ((if case_option True id (indexed rental) then grossRent rental * f else grossRent rental)
       - (if case_option True id (indexed rental) then grossRent rental * f else grossRent rental)
           * case_option (11 / 100) id (taxRate rental)
       - (if case_option True id (indexed rental) then grossRent rental * f else grossRent rental)
           * case_option (5 / 100) id (vacancyRate rental)
       - (if case_option True id (indexCosts rental)
          then case_option 0 id (operatingCosts rental) * f
          else case_option 0 id (operatingCosts rental)))
   \<and> 0 \<le> calculateNetRent rental f"
  by (simp add: calculateNetRent_def Let_def split: option.splits)




text \<open>
  C8 (amended). At a monthly rate of zero the annuity payment is \<open>P / n\<close> for every positive
  principal \<open>P\<close>, and 0 for every principal that is zero or negative.
\<close>

theorem annuity_zero_rate:
  "calculateAnnuityPayment P 0 n = (if P \<le> 0 then 0 else P / n)"
  by (simp add: calculateAnnuityPayment_def)

text \<open>
  C8 as stated fails for a negative principal: the payment on \<open>- 12\<close> over 12 periods is
  0, not \<open>- 1\<close>.
\<close>

theorem annuity_zero_rate_counterexample:
  "calculateAnnuityPayment (- 12) 0 12 = 0 \<and>
   calculateAnnuityPayment (- 12) 0 12 \<noteq> (- 12) / 12"
  by (simp add: calculateAnnuityPayment_def)

text \<open>
  C10. Two configurations that differ only in that one has no rental income and the other
  has a rental income record whose \<open>applyToLoan\<close> is unset give the same result, schedule and
  summary: no field of that record reaches the output.
\<close>

theorem idle_rental_irrelevant:
  assumes "\<not> applyToLoan r"
  shows "calculateSchedule (c\<lparr>rentalIncome := Some r\<rparr>) = calculateSchedule (c\<lparr>rentalIncome := None\<rparr>)"
proof -
  have "loop (c\<lparr>rentalIncome := Some r\<rparr>) (initialState c) =
        loop (c\<lparr>rentalIncome := None\<rparr>) (initialState c)"
    by (rule loop_cong) (simp_all add: step_idle [OF assms] rental_update_basic)
  then show ?thesis
    by (simp add: calculateSchedule_def Let_def rental_update_basic)
qed

theorem idle_rental_irrelevant_witness:
  "\<not> applyToLoan idleRental \<and>
   calculateSchedule (exampleLoan\<lparr>rentalIncome := Some idleRental\<rparr>) =
     calculateSchedule (exampleLoan\<lparr>rentalIncome := None\<rparr>)"
proof -
  have h: "\<not> applyToLoan idleRental" by (simp add: idleRental_def)
  show ?thesis using h idle_rental_irrelevant [OF h, of exampleLoan] by simp
qed

lemma scheduleOf_loop:
  "scheduleOf c = (if loanAmount c \<le> 0 then [] else st_schedule (loop c (initialState c)))"
  by (simp add: scheduleOf_def calculateSchedule_def Let_def)

lemma calculateSchedule_scheduleOf: "calculateSchedule c = Some r \<Longrightarrow> schedule r = scheduleOf c"
  by (simp add: scheduleOf_def)

lemma calculateSchedule_Some:
  "loanAmount c > 0 \<Longrightarrow> \<exists>r. calculateSchedule c = Some r \<and> schedule r = scheduleOf c"
  by (simp add: scheduleOf_def calculateSchedule_def Let_def)

text \<open>
  The schedules of the example configurations, computed by unfolding the loop.
\<close>

lemma exampleLoan_schedule:
  "scheduleOf exampleLoan =
    [\<lparr>month = 1, balanceStart = 1200, inflation = 0, interest = 0,
      principal = 400, fee = 10, requiredPayment = 400, manualExtra = 0,
      rentBasedExtra = 0, rentalContribution = 0, totalPaymentToLoan = 410,
      userOutOfPocket = 410, balance = 800\<rparr>,
     \<lparr>month = 2, balanceStart = 800, inflation = 0, interest = 0,
      principal = 400, fee = 10, requiredPayment = 400, manualExtra = 0,
      rentBasedExtra = 0, rentalContribution = 0, totalPaymentToLoan = 410,
      userOutOfPocket = 410, balance = 400\<rparr>,
     \<lparr>month = 3, balanceStart = 400, inflation = 0, interest = 0,
      principal = 400, fee = 10, requiredPayment = 400, manualExtra = 0,
      rentBasedExtra = 0, rentalContribution = 0, totalPaymentToLoan = 410,
      userOutOfPocket = 410, balance = 0\<rparr>]"
  by (simp add: scheduleOf_loop loop.simps body_defs exampleLoan_def Let_def)

lemma rentedLoan_schedule:
  "scheduleOf rentedLoan =
    [\<lparr>month = 1, balanceStart = 1200, inflation = 0, interest = 0,
      principal = 1000, fee = 10, requiredPayment = 400, manualExtra = 0,
      rentBasedExtra = 600, rentalContribution = 400,
      totalPaymentToLoan = 1010, userOutOfPocket = 10, balance = 200\<rparr>,
     \<lparr>month = 2, balanceStart = 200, inflation = 0, interest = 0,
      principal = 200, fee = 10, requiredPayment = 100, manualExtra = 0,
      rentBasedExtra = 900, rentalContribution = 100,
      totalPaymentToLoan = 1010, userOutOfPocket = 10, balance = 0\<rparr>,
     \<lparr>month = 3, balanceStart = 0, inflation = 0, interest = 0, principal = 0,
      fee = 10, requiredPayment = 0, manualExtra = 0, rentBasedExtra = 1000,
      rentalContribution = 0, totalPaymentToLoan = 1010,
      userOutOfPocket = 10, balance = 0\<rparr>]"
  by (simp add: scheduleOf_loop loop.simps body_defs rentedLoan_def coveringRental_def
      idleRental_def exampleLoan_def Let_def)

lemma brieflyRentedLoan_schedule:
  "scheduleOf brieflyRentedLoan =
    [\<lparr>month = 1, balanceStart = 1200, inflation = 0, interest = 0,
      principal = 1000, fee = 0, requiredPayment = 400, manualExtra = 0,
      rentBasedExtra = 600, rentalContribution = 400,
      totalPaymentToLoan = 1000, userOutOfPocket = 0, balance = 200\<rparr>,
     \<lparr>month = 2, balanceStart = 200, inflation = 0, interest = 0,
      principal = 100, fee = 0, requiredPayment = 100, manualExtra = 0,
      rentBasedExtra = 0, rentalContribution = 0, totalPaymentToLoan = 100,
      userOutOfPocket = 100, balance = 100\<rparr>,
     \<lparr>month = 3, balanceStart = 100, inflation = 0, interest = 0,
      principal = 100, fee = 0, requiredPayment = 100, manualExtra = 0,
      rentBasedExtra = 0, rentalContribution = 0, totalPaymentToLoan = 100,
      userOutOfPocket = 100, balance = 0\<rparr>]"
  by (simp add: scheduleOf_loop loop.simps body_defs brieflyRentedLoan_def briefRental_def
      coveringRental_def idleRental_def exampleLoan_def Let_def)

text \<open>
  The principal of every entry (C2).
\<close>

lemma principalRule_append:
  "i < length xs \<Longrightarrow> principalRule c (xs @ [e]) i = principalRule c xs i"
  by (simp add: principalRule_def balanceAfterInflationAt_def balanceBefore_def nth_append)

lemma balanceBefore_last:
  "balanceBefore c (xs @ [e]) (length xs) = balanceBefore c xs (length xs)"
  by (simp add: balanceBefore_def nth_append)

lemma balanceBefore_new:
  "balanceBefore c (xs @ [e]) (Suc (length xs)) = balance e"
  by (simp add: balanceBefore_def)

lemma principalRule_entry:
  assumes "st_balance s = balanceBefore c xs (length xs)"
  shows "principalRule c (xs @ [entry c s]) (length xs)"
proof -
  have "balanceAfterInflationAt c (xs @ [entry c s]) (length xs) = balanceAfterInflation c s"
    using assms
    by (simp add: balanceAfterInflationAt_def balanceBefore_last balanceAfterInflation_def
        inflationAmount_def)
  then show ?thesis
    by (simp add: principalRule_def entry_def actualPrincipal_def principalPaid_def)
qed

lemma principalInv_step: "principalInv c s \<Longrightarrow> principalInv c (step c s)"
  by (auto simp: principalInv_def st_schedule_step st_balance_step balanceBefore_new
      balance_entry less_Suc_eq principalRule_append principalRule_entry)

lemma principalInv_loop: "principalInv c (loop c (initialState c))"
proof (rule loop_invariant)
  show "principalInv c (initialState c)"
    by (simp add: principalInv_def initialState_def balanceBefore_def)
qed (rule principalInv_step)

text \<open>
  C2 (amended). For every entry emitted by \<open>calculateSchedule\<close>, \<open>principal\<close> equals
  \<open>max(0, min(totalPaymentToLoan - monthlyFee - interest, balanceAfterInflation))\<close>: the total
  payment recorded in the entry includes the monthly fee, which pays no principal. The
  balance after inflation of a period is the balance recorded by the period before (the
  loan amount for the first period) plus its indexation.
\<close>

theorem principal_formula:
  assumes "calculateSchedule c = Some r" and "i < length (schedule r)"
  shows "principal (schedule r ! i) =
           max 0 (min (totalPaymentToLoan (schedule r ! i) - monthlyFee c
                        - interest (schedule r ! i))
                      (balanceAfterInflationAt c (schedule r) i))"
proof -
  have "schedule r = st_schedule (loop c (initialState c))"
    using assms(1) by (auto simp: calculateSchedule_def Let_def split: if_splits)
  then show ?thesis
    using principalInv_loop [of c] assms(2) by (simp add: principalInv_def principalRule_def)
qed

theorem principal_formula_witness:
  "(\<exists>r. calculateSchedule rentedLoan = Some r \<and> schedule r = scheduleOf rentedLoan) \<and>
   0 < length (scheduleOf rentedLoan) \<and>
   principal (scheduleOf rentedLoan ! 0) =
     max 0 (min (totalPaymentToLoan (scheduleOf rentedLoan ! 0) - monthlyFee rentedLoan
                  - interest (scheduleOf rentedLoan ! 0))
                (balanceAfterInflationAt rentedLoan (scheduleOf rentedLoan) 0)) \<and>
   principal (scheduleOf rentedLoan ! 0) = 1000 \<and>
   totalPaymentToLoan (scheduleOf rentedLoan ! 0) = 1010 \<and>
   monthlyFee rentedLoan = 10"
proof -
  have pos: "loanAmount rentedLoan > 0" by (simp add: rentedLoan_def exampleLoan_def)
  from calculateSchedule_Some [OF pos] obtain r where
    r: "calculateSchedule rentedLoan = Some r" "schedule r = scheduleOf rentedLoan" by blast
  have len: "0 < length (schedule r)" by (simp add: r(2) rentedLoan_schedule)
  from principal_formula [OF r(1) len] r show ?thesis
    by (simp add: rentedLoan_schedule) (simp add: rentedLoan_def exampleLoan_def)
qed

text \<open>
  C2 as stated fails when there is a monthly fee: the first entry of the example loan has
  a principal of 400, and the formula on the recorded total payment gives 410.
\<close>

theorem principal_formula_counterexample:
  "principal (scheduleOf exampleLoan ! 0) = 400 \<and>
   max 0 (min (totalPaymentToLoan (scheduleOf exampleLoan ! 0)
                - interest (scheduleOf exampleLoan ! 0))
              (balanceAfterInflationAt exampleLoan (scheduleOf exampleLoan) 0)) = 410"
  by (simp add: exampleLoan_schedule balanceAfterInflationAt_def balanceBefore_def
      monthlyInflationRate_def isIndexed_def)
     (simp add: exampleLoan_def)

text \<open>
  The rental block of every entry (C3).
\<close>

lemma month_entry: "month (entry c s) = Suc (st_month s)"
  by (simp add: entry_def)

lemma rentRule_entry:
  assumes "rentalIncome c = Some r" "applyToLoan r"
    and "st_cumulativeInflationFactor s = (1 + monthlyInflationRate c) ^ st_month s"
  shows "rentRule c r (entry c s)"
proof -
  have pd: "paymentDue c (entry c s) = paymentBeforeRental c s"
    by (simp add: paymentDue_def entry_def paymentBeforeRental_def fixedOverride_def)
  have nr: "netRentAt c r (entry c s) = calculateNetRent r (st_cumulativeInflationFactor s)"
    using assms(3) by (simp add: netRentAt_def month_entry)
  have "applyRental c s =
          (paymentBeforeRental c s,
           calculateNetRent r (st_cumulativeInflationFactor s) - paymentBeforeRental c s,
           manualExtra' c s)"
    if "rentalActive c (Suc (st_month s))"
       "calculateNetRent r (st_cumulativeInflationFactor s) \<ge> paymentBeforeRental c s"
    using that assms(1,2) by (simp add: applyRental_def Let_def)
  then show ?thesis
    unfolding rentRule_def pd nr month_entry
    by (simp add: entry_def rentalContribution'_def rentBasedExtra'_def userOutOfPocket'_def)
qed

lemma rentInv_step:
  assumes "rentalIncome c = Some r" "applyToLoan r" "rentInv c r s"
  shows "rentInv c r (step c s)"
proof -
  have "st_cumulativeInflationFactor (step c s) =
          (1 + monthlyInflationRate c) ^ st_month (step c s)"
    using assms(3) by (simp add: rentInv_def step_def)
  moreover have "rentRule c r (entry c s)"
    using assms by (intro rentRule_entry) (simp_all add: rentInv_def)
  ultimately show ?thesis
    using assms(3) by (simp add: rentInv_def st_schedule_step)
qed

lemma rentInv_loop:
  assumes "rentalIncome c = Some r" "applyToLoan r"
  shows "rentInv c r (loop c (initialState c))"
proof (rule loop_invariant)
  show "rentInv c r (initialState c)"
    by (simp add: rentInv_def initialState_def)
qed (rule rentInv_step [OF assms])

text \<open>
  C3 (amended). For every period inside the rental window (\<open>month \<le> rentalDurationMonths\<close>)
  of a configuration whose rental income is applied to the loan, if the net rent of the
  period is at least the payment due (the fixed payment when it overrides, else the
  required payment), the entry has \<open>rentalContribution\<close> equal to the payment,
  \<open>rentBasedExtra\<close> equal to the net rent minus the payment, and \<open>userOutOfPocket\<close> equal
  to \<open>manualExtra\<close> plus the monthly fee.
\<close>

theorem rent_covers_payment:
  assumes "calculateSchedule c = Some res" and "e \<in> set (schedule res)"
    and "rentalIncome c = Some r" and "applyToLoan r"
    and "rentalActive c (month e)"
    and "netRentAt c r e \<ge> paymentDue c e"
  shows "rentalContribution e = paymentDue c e \<and>
         rentBasedExtra e = netRentAt c r e - paymentDue c e \<and>
         userOutOfPocket e = manualExtra e + monthlyFee c"
proof -
  have "schedule res = st_schedule (loop c (initialState c))"
    using assms(1) by (auto simp: calculateSchedule_def Let_def split: if_splits)
  then have "rentRule c r e"
    using rentInv_loop [OF assms(3,4)] assms(2) by (simp add: rentInv_def list_all_iff)
  then show ?thesis using assms(5,6) by (simp add: rentRule_def)
qed

theorem rent_covers_payment_witness:
  "rentalIncome rentedLoan = Some coveringRental \<and> applyToLoan coveringRental \<and>
   scheduleOf rentedLoan ! 0 \<in> set (scheduleOf rentedLoan) \<and>
   rentalActive rentedLoan (month (scheduleOf rentedLoan ! 0)) \<and>
   netRentAt rentedLoan coveringRental (scheduleOf rentedLoan ! 0) = 1000 \<and>
   paymentDue rentedLoan (scheduleOf rentedLoan ! 0) = 400 \<and>
   rentalContribution (scheduleOf rentedLoan ! 0) = 400 \<and>
   rentBasedExtra (scheduleOf rentedLoan ! 0) = 600 \<and>
   manualExtra (scheduleOf rentedLoan ! 0) = 0 \<and>
   userOutOfPocket (scheduleOf rentedLoan ! 0) = 10"
proof -
  have pos: "loanAmount rentedLoan > 0" by (simp add: rentedLoan_def exampleLoan_def)
  from calculateSchedule_Some [OF pos] obtain res where
    res: "calculateSchedule rentedLoan = Some res" "schedule res = scheduleOf rentedLoan"
    by blast
  have ri: "rentalIncome rentedLoan = Some coveringRental" by (simp add: rentedLoan_def)
  have ap: "applyToLoan coveringRental" by (simp add: coveringRental_def)
  have mem: "scheduleOf rentedLoan ! 0 \<in> set (schedule res)"
    by (simp add: res(2) rentedLoan_schedule)
  have act: "rentalActive rentedLoan (month (scheduleOf rentedLoan ! 0))"
    by (simp add: rentedLoan_schedule rentalActive_def ri)
       (simp add: coveringRental_def idleRental_def)
  have nr: "netRentAt rentedLoan coveringRental (scheduleOf rentedLoan ! 0) = 1000"
    by (simp add: rentedLoan_schedule netRentAt_def calculateNetRent_def
        coveringRental_def idleRental_def)
  have pd: "paymentDue rentedLoan (scheduleOf rentedLoan ! 0) = 400"
    by (simp add: rentedLoan_schedule paymentDue_def) (simp add: rentedLoan_def exampleLoan_def)
  have ge: "netRentAt rentedLoan coveringRental (scheduleOf rentedLoan ! 0)
              \<ge> paymentDue rentedLoan (scheduleOf rentedLoan ! 0)"
    by (simp add: nr pd)
  have fee: "monthlyFee rentedLoan = 10" by (simp add: rentedLoan_def exampleLoan_def)
  have m0: "manualExtra (scheduleOf rentedLoan ! 0) = 0" by (simp add: rentedLoan_schedule)
  from rent_covers_payment [OF res(1) mem ri ap act ge] ri ap mem act nr pd fee m0 res(2)
  show ?thesis by simp
qed

text \<open>
  C3 as stated fails in two ways. With a monthly fee of 10 the recorded \<open>userOutOfPocket\<close>
  is 10 where \<open>manualExtra\<close> is 0; and in the second month of a rental that lasts one month
  the net rent of 1000 exceeds the payment of 100, yet \<open>rentalContribution\<close> is 0.
\<close>

theorem rent_covers_payment_counterexample:
  "(applyToLoan coveringRental \<and> rentalIncome rentedLoan = Some coveringRental \<and>
    netRentAt rentedLoan coveringRental (scheduleOf rentedLoan ! 0)
      \<ge> paymentDue rentedLoan (scheduleOf rentedLoan ! 0) \<and>
    userOutOfPocket (scheduleOf rentedLoan ! 0) = 10 \<and>
    manualExtra (scheduleOf rentedLoan ! 0) = 0) \<and>
   (applyToLoan briefRental \<and> rentalIncome brieflyRentedLoan = Some briefRental \<and>
    netRentAt brieflyRentedLoan briefRental (scheduleOf brieflyRentedLoan ! 1)
      \<ge> paymentDue brieflyRentedLoan (scheduleOf brieflyRentedLoan ! 1) \<and>
    paymentDue brieflyRentedLoan (scheduleOf brieflyRentedLoan ! 1) = 100 \<and>
    rentalContribution (scheduleOf brieflyRentedLoan ! 1) = 0)"
proof -
  have a: "netRentAt rentedLoan coveringRental (scheduleOf rentedLoan ! 0) = 1000"
    by (simp add: rentedLoan_schedule netRentAt_def calculateNetRent_def
        coveringRental_def idleRental_def)
  have b: "paymentDue rentedLoan (scheduleOf rentedLoan ! 0) = 400"
    by (simp add: rentedLoan_schedule paymentDue_def) (simp add: rentedLoan_def exampleLoan_def)
  have c: "netRentAt brieflyRentedLoan briefRental (scheduleOf brieflyRentedLoan ! 1) = 1000"
    by (simp add: brieflyRentedLoan_schedule netRentAt_def calculateNetRent_def
        briefRental_def coveringRental_def idleRental_def)
  have d: "paymentDue brieflyRentedLoan (scheduleOf brieflyRentedLoan ! 1) = 100"
    by (simp add: brieflyRentedLoan_schedule paymentDue_def)
       (simp add: brieflyRentedLoan_def exampleLoan_def)
  have e: "applyToLoan coveringRental" "applyToLoan briefRental"
    by (simp_all add: briefRental_def coveringRental_def)
  have f: "rentalIncome rentedLoan = Some coveringRental"
    "rentalIncome brieflyRentedLoan = Some briefRental"
    by (simp_all add: rentedLoan_def brieflyRentedLoan_def)
  have g: "userOutOfPocket (scheduleOf rentedLoan ! 0) = 10"
    "manualExtra (scheduleOf rentedLoan ! 0) = 0"
    "rentalContribution (scheduleOf brieflyRentedLoan ! 1) = 0"
    by (simp_all add: rentedLoan_schedule brieflyRentedLoan_schedule)
  show ?thesis
    unfolding a b c d using e f g by simp
qed



















end
